theory Spec2Isabelle
  imports Main
begin

section \<open>Strings of the host language\<close>

text \<open>
  A JavaScript string is a sequence of UTF-16 code units. A code unit is held as a
  natural number; \<open>lit\<close> turns an ASCII literal of the source into its code units.
  Literals of the source that contain characters outside ASCII are written with their
  code units spelled out.
\<close>

type_synonym jsstring = "nat list"

definition lit :: "string \<Rightarrow> jsstring" where
  "lit s = map of_char s"

text \<open>
  \<open>String.prototype.toLowerCase\<close>. The definition is exact for the code units
  \<open>U+0000\<close> to \<open>U+00FF\<close> (Basic Latin and Latin-1 Supplement: \<open>A\<close>-\<open>Z\<close> and
  \<open>U+00C0\<close>-\<open>U+00DE\<close> without the multiplication sign move up by 32). Code units
  above that range are returned as they are; the cased letters among them are outside
  the range this development covers.
\<close>

definition lower_unit :: "nat \<Rightarrow> nat" where
  "lower_unit c =
     (if 65 \<le> c \<and> c \<le> 90 then c + 32
      else if 192 \<le> c \<and> c \<le> 222 \<and> c \<noteq> 215 then c + 32
      else c)"

definition toLowerCase :: "jsstring \<Rightarrow> jsstring" where
  "toLowerCase s = map lower_unit s"

text \<open>
  \<open>String.prototype.trim\<close> removes leading and trailing white space and line
  terminators: TAB, LF, VT, FF, CR, SPACE, NBSP, the space separators of Unicode,
  LS, PS and the byte order mark.
\<close>

definition is_space :: "nat \<Rightarrow> bool" where
  "is_space c \<longleftrightarrow>
     (9 \<le> c \<and> c \<le> 13) \<or> c = 32 \<or> c = 160 \<or> c = 5760 \<or>
     (8192 \<le> c \<and> c \<le> 8202) \<or> c = 8232 \<or> c = 8233 \<or> c = 8239 \<or>
     c = 8287 \<or> c = 12288 \<or> c = 65279"

definition trim :: "jsstring \<Rightarrow> jsstring" where
  "trim s = rev (dropWhile is_space (rev (dropWhile is_space s)))"

text \<open>\<open>m.includes(p)\<close>: \<open>p\<close> occurs in \<open>m\<close> as a run of adjacent code units.\<close>

fun str_includes :: "jsstring \<Rightarrow> jsstring \<Rightarrow> bool" where
  "str_includes [] p = (p = [])"
| "str_includes (c # cs) p = (take (length p) (c # cs) = p \<or> str_includes cs p)"

section \<open>Text classifier\<close>

text \<open>
  \<^verbatim>\<open>function normalize(s = "") { return s.toLowerCase().trim(); }\<close>
  The two classifiers are the same in both variants of the component.
\<close>

definition normalize :: "jsstring \<Rightarrow> jsstring" where
  "normalize s = trim (toLowerCase s)"

definition isNameQuestion :: "jsstring \<Rightarrow> bool" where
  "isNameQuestion msg =
     (let m = normalize msg in
        str_includes m (lit ''your name'') \<or>
        str_includes m (lit ''ur name'') \<or>
        m = lit ''name'' \<or>
        str_includes m (lit ''what is your name'') \<or>
        str_includes m (lit ''who are you''))"

definition isCreatorQuestion :: "jsstring \<Rightarrow> bool" where
  "isCreatorQuestion msg =
     (let m = normalize msg in
        str_includes m (lit ''who created you'') \<or>
        str_includes m (lit ''who made you'') \<or>
        str_includes m (lit ''your creator'') \<or>
        str_includes m (lit ''who built you''))"

section \<open>Values parsed from JSON\<close>

text \<open>
  What \<open>r.json()\<close> can deliver. A number is held as the text that the host's
  number-to-string conversion gives for it (zero is \<open>0\<close>); the component never
  computes with a number, it only tests one for truthiness and prints it.
  An object is the list of its own properties, each name once (the parser keeps one
  value per name).
\<close>

datatype json =
    JNull
  | JBool bool
  | JNum jsstring
  | JStr jsstring
  | JArr "json list"
  | JObj "(jsstring \<times> json) list"

text \<open>
  \<open>d?.k\<close> for the two keys the component reads, \<open>reply\<close> and \<open>error\<close>, which
  no built-in prototype defines: \<open>None\<close> is \<open>undefined\<close>. On \<open>null\<close> the optional
  chain gives \<open>undefined\<close>; the plain read \<open>d.k\<close> throws there, which the variant
  that uses it spells out.
\<close>

definition get_prop :: "json \<Rightarrow> jsstring \<Rightarrow> json option" where
  "get_prop d k = (case d of JObj kvs \<Rightarrow> map_of kvs k | _ \<Rightarrow> None)"

fun truthy :: "json \<Rightarrow> bool" where
  "truthy JNull = False"
| "truthy (JBool b) = b"
| "truthy (JNum s) = (s \<noteq> lit ''0'')"
| "truthy (JStr s) = (s \<noteq> [])"
| "truthy (JArr xs) = True"
| "truthy (JObj kvs) = True"

fun is_truthy :: "json option \<Rightarrow> bool" where
  "is_truthy None = False"
| "is_truthy (Some v) = truthy v"

text \<open>\<open>a || b\<close> where \<open>b\<close> is a value; \<open>a ?? b\<close> likewise.\<close>

definition or_else :: "json option \<Rightarrow> json \<Rightarrow> json" where
  "or_else a b = (case a of None \<Rightarrow> b | Some v \<Rightarrow> if truthy v then v else b)"

definition nullish_else :: "json option \<Rightarrow> json \<Rightarrow> json" where
  "nullish_else a b = (case a of None \<Rightarrow> b | Some JNull \<Rightarrow> b | Some v \<Rightarrow> v)"

text \<open>
  String conversion inside a template literal; \<open>None\<close> means that the conversion
  throws a \<open>TypeError\<close>. An array prints its elements joined by commas, \<open>null\<close>
  elements as the empty string. An object prints as \<open>[object Object]\<close>, unless it
  has a property of its own named \<open>toString\<close>: that property hides the inherited
  method, its value (parsed from JSON) is not callable, and the fallback \<open>valueOf\<close>
  does not give a primitive, so the conversion throws.
\<close>

fun join_comma :: "jsstring list \<Rightarrow> jsstring" where
  "join_comma [] = []"
| "join_comma [x] = x"
| "join_comma (x # y # ys) = x @ lit '','' @ join_comma (y # ys)"

fun to_string :: "json \<Rightarrow> jsstring option" where
  "to_string JNull = Some (lit ''null'')"
| "to_string (JBool b) = Some (if b then lit ''true'' else lit ''false'')"
| "to_string (JNum s) = Some s"
| "to_string (JStr s) = Some s"
| "to_string (JArr xs) =
     map_option join_comma
       (those (map (\<lambda>x. if x = JNull then Some [] else to_string x) xs))"
| "to_string (JObj kvs) =
     (if lit ''toString'' \<in> set (map fst kvs) then None
      else Some (lit ''[object Object]''))"

text \<open>Decimal digits of a status code, as \<open>`HTTP ${r.status}`\<close> prints it.\<close>

fun digits :: "nat \<Rightarrow> jsstring" where
  "digits n = (if n < 10 then [48 + n] else digits (n div 10) @ [48 + n mod 10])"

declare digits.simps [simp del]

section \<open>Component state and its updates\<close>

record message =
  role :: jsstring
  text' :: json

record chat_state =
  online :: bool
  input :: jsstring
  sending :: bool
  messages :: "message list"

datatype jserror = AbortError | TypeError | SyntaxError

fun name :: "jserror \<Rightarrow> jsstring" where
  "name AbortError = lit ''AbortError''"
| "name TypeError = lit ''TypeError''"
| "name SyntaxError = lit ''SyntaxError''"

text \<open>
  The body of the chat request, \<open>{ message, history }\<close>, and whether the call carries
  an abort signal. URL, method and headers are constants of the source and are left out.
\<close>

record request =
  message :: jsstring
  history :: "message list"
  signal :: bool

text \<open>
  Every \<open>setMessages\<close> call of the component passes an arrow function
  \<open>(prev) => [...prev, m]\<close>. React runs that function when it processes the update,
  not while \<open>send\<close> is running, so the object literal \<open>m\<close> is evaluated outside
  the \<open>try\<close> block of \<open>send\<close>. \<open>Append m\<close>: the literal evaluates to \<open>m\<close>.
  \<open>Throws e\<close>: evaluating the literal throws \<open>e\<close>.
\<close>

datatype updater = Append message | Throws jserror

text \<open>What \<open>send\<close> does to the outside, in program order.\<close>

datatype action =
    SetMessages updater
  | SetInput jsstring
  | SetSending bool
  | SetOnline bool
  | SetTimeout nat
  | FetchCall request
  | ControllerAbort
  | ClearTimeout

text \<open>
  React applies the queued updates in order. A throwing updater makes the render fail
  (\<open>Inl\<close>); timers and network calls are not component state.
  \<open>commit acts st\<close> is the state that the updates of one \<open>send\<close> lead to from the
  state \<open>st\<close> of the render in which \<open>send\<close> was called. Writes of other handlers
  (typing into the input, the health probe of the second variant) are not part of a
  trace of \<open>send\<close>; none of them writes \<open>messages\<close> or \<open>sending\<close>.
\<close>

fun reduce :: "action \<Rightarrow> chat_state \<Rightarrow> jserror + chat_state" where
  "reduce (SetMessages (Append m)) st = Inr (st\<lparr>messages := messages st @ [m]\<rparr>)"
| "reduce (SetMessages (Throws e)) st = Inl e"
| "reduce (SetInput s) st = Inr (st\<lparr>input := s\<rparr>)"
| "reduce (SetSending b) st = Inr (st\<lparr>sending := b\<rparr>)"
| "reduce (SetOnline b) st = Inr (st\<lparr>online := b\<rparr>)"
| "reduce (SetTimeout ms) st = Inr st"
| "reduce (FetchCall req) st = Inr st"
| "reduce ControllerAbort st = Inr st"
| "reduce ClearTimeout st = Inr st"

fun commit :: "action list \<Rightarrow> chat_state \<Rightarrow> jserror + chat_state" where
  "commit [] st = Inr st"
| "commit (a # acts) st =
     (case reduce a st of Inl e \<Rightarrow> Inl e | Inr st' \<Rightarrow> commit acts st')"

text \<open>
  An \<open>async\<close> function either runs to its end or stays suspended at an \<open>await\<close>
  whose promise never settles; both carry what was done up to that point.
\<close>

datatype run = Returned "action list" | Suspended "action list"

fun trace :: "run \<Rightarrow> action list" where
  "trace (Returned acts) = acts"
| "trace (Suspended acts) = acts"

section \<open>Network\<close>

text \<open>
  What an \<open>await\<close> meets: the promise is fulfilled, it is rejected, or it never
  settles.
\<close>

datatype 'a promise = Fulfilled 'a | Rejected jserror | Pending

text \<open>
  A response: its status code and what \<open>r.json()\<close> settles to. \<open>r.ok\<close> is the
  host's test for a status from 200 to 299.
\<close>

record response =
  status :: nat
  json_result :: "json promise"

definition ok :: "response \<Rightarrow> bool" where
  "ok r \<longleftrightarrow> 200 \<le> status r \<and> status r \<le> 299"

text \<open>
  How the network treats one call: what \<open>fetch\<close> settles to when nobody aborts it,
  and after how many milliseconds (\<open>settles_after\<close> means nothing when the result is
  \<open>Pending\<close>).
\<close>

record transport =
  settles_after :: nat
  result :: "response promise"

text \<open>
  \<^verbatim>\<open>
  async function fetchWithTimeout(url, options = {}, ms = 45000) {
    const controller = new AbortController();
    const id = setTimeout(() => controller.abort(), ms);
    try {
      const res = await fetch(url, { ...options, signal: controller.signal });
      return res;
    } finally {
      clearTimeout(id);
    }
  }
  \<close>
  The call settles in time when the network settles it strictly before the timer
  fires. Otherwise the timer aborts the controller and \<open>fetch\<close> rejects with the
  host's \<open>AbortError\<close>. The \<open>finally\<close> block clears the timer on both paths.
\<close>

definition fetchWithTimeout ::
  "transport \<Rightarrow> request \<Rightarrow> nat \<Rightarrow> action list \<times> response promise" where
  "fetchWithTimeout tr options ms =
     (if result tr \<noteq> Pending \<and> settles_after tr < ms
      then ([SetTimeout ms, FetchCall (options\<lparr>signal := True\<rparr>), ClearTimeout],
            result tr)
      else ([SetTimeout ms, FetchCall (options\<lparr>signal := True\<rparr>), ControllerAbort,
             ClearTimeout],
            Rejected AbortError))"

section \<open>Conversation store\<close>

definition assistant :: "json \<Rightarrow> message" where
  "assistant t = \<lparr>role = lit ''assistant'', text' = t\<rparr>"

definition user :: "jsstring \<Rightarrow> message" where
  "user t = \<lparr>role = lit ''user'', text' = JStr t\<rparr>"

definition greeting :: jsstring where
  "greeting = lit ''Hi, I'm Esita. How can I help you today?''"

definition initial_state :: chat_state where
  "initial_state =
     \<lparr>online = True, input = [], sending = False,
      messages = [assistant (JStr greeting)]\<rparr>"

text \<open>\<open>xs.slice(-n)\<close>: the last \<open>n\<close> elements, all of them when there are fewer.\<close>

definition slice_last :: "nat \<Rightarrow> 'a list \<Rightarrow> 'a list" where
  "slice_last n xs = drop (length xs - n) xs"

text \<open>
  \<^verbatim>\<open>
  const historyForServer = useMemo(() => {
    return messages.slice(-10).map((m) => ({
      role: m.role === "assistant" ? "assistant" : "user",
      text: m.text,
    }));
  }, [messages]);
  \<close>
  The value belongs to one render: it is computed from the \<open>messages\<close> of that
  render and bound to a \<open>const\<close> that the \<open>send\<close> of that render closes over.
\<close>

definition historyForServer :: "message list \<Rightarrow> message list" where
  "historyForServer ms =
     map (\<lambda>m. \<lparr>role = (if role m = lit ''assistant'' then lit ''assistant''
                         else lit ''user''),
                 text' = text' m\<rparr>)
         (slice_last 10 ms)"

text \<open>
  The updater \<open>(prev) => [...prev, { role: "assistant", text: `<prefix>${v}` }]\<close>.
  The template literal sits inside the arrow function: the string conversion of \<open>v\<close>
  happens, and may throw, when React runs the updater.
\<close>

definition templated :: "jsstring \<Rightarrow> json \<Rightarrow> updater" where
  "templated prefix v =
     (case to_string v of
        None \<Rightarrow> Throws TypeError
      | Some s \<Rightarrow> Append (assistant (JStr (prefix @ s))))"

section \<open>Send controller, second variant (with the timeout helper)\<close>

definition creator_text2 :: jsstring where
  "creator_text2 = lit ''Sweetyseleena created me. '' @ [0xF0, 0x178, 0x2018, 0x2018]"

definition name_text2 :: jsstring where
  "name_text2 = lit ''I'm Esita '' @ [0xF0, 0x178, 0xA4, 0x2013]"

definition error_prefix2 :: jsstring where
  "error_prefix2 = [0xE2, 0x152, 0x20]"

definition no_reply_text :: jsstring where
  "no_reply_text = lit ''No reply.''"

definition timeout_text :: jsstring where
  "timeout_text = lit ''Request timed out (Render sleeping or slow). Try again.''"

definition connection_text :: jsstring where
  "connection_text = lit ''Connection error. Please try again.''"

text \<open>
  The three-way branch on the response, with \<open>data\<close> the parsed body or \<open>null\<close>:
  \<^verbatim>\<open>
  if (!r.ok) {
    const msg = data?.reply || data?.error || `HTTP ${r.status}`;
    setMessages(... `<prefix> ${msg}` ...); setOnline(false);
  } else if (data?.reply) {
    setMessages(... data.reply ...); setOnline(true);
  } else {
    setMessages(... "No reply." ...); setOnline(true);
  }
  \<close>
\<close>

definition error_msg2 :: "response \<Rightarrow> json \<Rightarrow> json" where
  "error_msg2 r data =
     or_else (get_prop data (lit ''reply''))
       (or_else (get_prop data (lit ''error''))
          (JStr (lit ''HTTP '' @ digits (status r))))"

definition reconcile2 :: "response \<Rightarrow> json \<Rightarrow> action list" where
  "reconcile2 r data =
     (if \<not> ok r then
        (let msg = error_msg2 r data
         in [SetMessages (templated error_prefix2 msg), SetOnline False])
      else
        (let no_reply = [SetMessages (Append (assistant (JStr no_reply_text))),
                         SetOnline True]
         in case get_prop data (lit ''reply'') of
              None \<Rightarrow> no_reply
            | Some v \<Rightarrow>
                if truthy v then [SetMessages (Append (assistant v)), SetOnline True]
                else no_reply))"

text \<open>
  \<^verbatim>\<open>
  catch (e) {
    const msg = e?.name === "AbortError"
      ? "Request timed out (Render sleeping or slow). Try again."
      : "Connection error. Please try again.";
    setOnline(false);
    setMessages((prev) => [...prev, { role: "assistant", text: msg }]);
  }
  \<close>
\<close>

definition catch2 :: "jserror \<Rightarrow> action list" where
  "catch2 e =
     (let msg = (if name e = lit ''AbortError'' then timeout_text else connection_text)
      in [SetOnline False, SetMessages (Append (assistant (JStr msg)))])"

text \<open>
  \<open>send\<close> reads \<open>input\<close>, \<open>sending\<close> and \<open>historyForServer\<close> from the render it
  belongs to (the state \<open>st\<close>); the setters only queue updates and change none of
  these bindings. A body that does not parse leaves \<open>data\<close> at \<open>null\<close>.
\<close>

definition send2 :: "transport \<Rightarrow> chat_state \<Rightarrow> run" where
  "send2 tr st =
     (let text = trim (input st) in
      if text = [] \<or> sending st then Returned []
      else
        let pre = [SetMessages (Append (user text)), SetInput []] in
        if isCreatorQuestion text then
          Returned (pre @ [SetMessages (Append (assistant (JStr creator_text2)))])
        else if isNameQuestion text then
          Returned (pre @ [SetMessages (Append (assistant (JStr name_text2)))])
        else
          let options = \<lparr>message = text, history = historyForServer (messages st),
                         signal = False\<rparr>
          in case fetchWithTimeout tr options 45000 of
               (io, Pending) \<Rightarrow> Suspended (pre @ [SetSending True] @ io)
             | (io, Rejected e) \<Rightarrow>
                 Returned (pre @ [SetSending True] @ io @ catch2 e @ [SetSending False])
             | (io, Fulfilled r) \<Rightarrow>
                 (case json_result r of
                    Pending \<Rightarrow> Suspended (pre @ [SetSending True] @ io)
                  | Rejected e \<Rightarrow>
                      Returned (pre @ [SetSending True] @ io @ reconcile2 r JNull @
                                [SetSending False])
                  | Fulfilled data \<Rightarrow>
                      Returned (pre @ [SetSending True] @ io @ reconcile2 r data @
                                [SetSending False])))"

section \<open>Send controller, first variant (plain fetch)\<close>

definition creator_text1 :: jsstring where
  "creator_text1 = lit ''Sweetyseleena created me. '' @ [0xD83D, 0xDC51]"

definition name_text1 :: jsstring where
  "name_text1 = lit ''I'm Esita '' @ [0xD83E, 0xDD16]"

definition error_prefix1 :: jsstring where
  "error_prefix1 = [0x274C, 0x20]"

text \<open>
  \<^verbatim>\<open>
  const data = await r.json();
  if (data?.error) {
    setMessages((prev) => [...prev, { role: "assistant", text: `<prefix> ${data.error}` }]);
  } else {
    setMessages((prev) => [...prev, { role: "assistant", text: data.reply ?? "No reply." }]);
  }
  setOnline(true);
  \<close>
  Both object literals sit inside the arrow function. \<open>data.reply\<close> is a plain read:
  when \<open>data\<close> is \<open>null\<close> it throws, and it does so when React runs the updater.
  The string conversion of \<open>data.error\<close> happens there as well.
\<close>

definition reply_updater1 :: "json \<Rightarrow> updater" where
  "reply_updater1 data =
     (if data = JNull then Throws TypeError
      else Append (assistant (nullish_else (get_prop data (lit ''reply''))
                                (JStr no_reply_text))))"

definition reconcile1 :: "json \<Rightarrow> action list" where
  "reconcile1 data =
     [SetMessages
        (case get_prop data (lit ''error'') of
           None \<Rightarrow> reply_updater1 data
         | Some v \<Rightarrow>
             if truthy v then templated error_prefix1 v
             else reply_updater1 data),
      SetOnline True]"

definition catch1 :: "action list" where
  "catch1 = [SetOnline False, SetMessages (Append (assistant (JStr connection_text)))]"

definition send1 :: "transport \<Rightarrow> chat_state \<Rightarrow> run" where
  "send1 tr st =
     (let text = trim (input st) in
      if text = [] \<or> sending st then Returned []
      else
        let pre = [SetMessages (Append (user text)), SetInput []] in
        if isCreatorQuestion text then
          Returned (pre @ [SetMessages (Append (assistant (JStr creator_text1)))])
        else if isNameQuestion text then
          Returned (pre @ [SetMessages (Append (assistant (JStr name_text1)))])
        else
          let options = \<lparr>message = text, history = historyForServer (messages st),
                         signal = False\<rparr>;
              begun = pre @ [SetSending True, FetchCall options]
          in case result tr of
               Pending \<Rightarrow> Suspended begun
             | Rejected e \<Rightarrow> Returned (begun @ catch1 @ [SetSending False])
             | Fulfilled r \<Rightarrow>
                 (case json_result r of
                    Pending \<Rightarrow> Suspended begun
                  | Rejected e \<Rightarrow> Returned (begun @ catch1 @ [SetSending False])
                  | Fulfilled data \<Rightarrow>
                      Returned (begun @ reconcile1 data @ [SetSending False])))"

section \<open>Reading a trace\<close>

text \<open>The network calls of a trace, in order.\<close>

fun fetch_calls :: "action list \<Rightarrow> request list" where
  "fetch_calls [] = []"
| "fetch_calls (FetchCall req # acts) = req # fetch_calls acts"
| "fetch_calls (a # acts) = fetch_calls acts"

text \<open>The values written by \<open>setSending\<close> and by \<open>setOnline\<close>, in order.\<close>

fun sending_writes :: "action list \<Rightarrow> bool list" where
  "sending_writes [] = []"
| "sending_writes (SetSending b # acts) = b # sending_writes acts"
| "sending_writes (a # acts) = sending_writes acts"

fun online_writes :: "action list \<Rightarrow> bool list" where
  "online_writes [] = []"
| "online_writes (SetOnline b # acts) = b # online_writes acts"
| "online_writes (a # acts) = online_writes acts"

text \<open>The updaters passed to \<open>setMessages\<close>, in order.\<close>

fun message_updates :: "action list \<Rightarrow> updater list" where
  "message_updates [] = []"
| "message_updates (SetMessages u # acts) = u # message_updates acts"
| "message_updates (a # acts) = message_updates acts"

text \<open>The timers started and the aborts fired.\<close>

fun timer_events :: "action list \<Rightarrow> action list" where
  "timer_events [] = []"
| "timer_events (SetTimeout ms # acts) = SetTimeout ms # timer_events acts"
| "timer_events (ControllerAbort # acts) = ControllerAbort # timer_events acts"
| "timer_events (a # acts) = timer_events acts"

text \<open>
  The body read of a response that arrived settles: \<open>r.json()\<close> is fulfilled or
  rejected. (The timer of \<open>fetchWithTimeout\<close> is cleared once the response has
  arrived, so it does not bound the body read.)
\<close>

definition body_settles :: "transport \<Rightarrow> bool" where
  "body_settles tr =
     (case result tr of Fulfilled r \<Rightarrow> json_result r \<noteq> Pending | _ \<Rightarrow> True)"

text \<open>
  The response arrives before a timer of \<open>ms\<close> milliseconds fires, and its body read
  never settles.
\<close>

definition body_stalls :: "nat \<Rightarrow> transport \<Rightarrow> bool" where
  "body_stalls ms tr =
     (settles_after tr < ms \<and>
      (case result tr of Fulfilled r \<Rightarrow> json_result r = Pending | _ \<Rightarrow> False))"

text \<open>
  The error text of a response with a non-success status can be converted to a string
  (\<open>data\<close> is the parsed body, or \<open>null\<close> when the body does not parse).
\<close>

definition error_text_prints :: "transport \<Rightarrow> bool" where
  "error_text_prints tr =
     (case result tr of
        Fulfilled r \<Rightarrow>
          ok r \<or>
          to_string (error_msg2 r (case json_result r of Fulfilled d \<Rightarrow> d | _ \<Rightarrow> JNull))
            \<noteq> None
      | _ \<Rightarrow> True)"

section \<open>The literal patterns of the two classifiers\<close>

text \<open>
  The string literals that \<open>isCreatorQuestion\<close> and \<open>isNameQuestion\<close> pass to
  \<open>includes\<close>, in source order, and the one literal that \<open>isNameQuestion\<close> compares
  with \<open>===\<close>.
\<close>

definition creator_patterns :: "jsstring list" where
  "creator_patterns =
     [lit ''who created you'', lit ''who made you'', lit ''your creator'',
      lit ''who built you'']"

definition name_patterns :: "jsstring list" where
  "name_patterns =
     [lit ''your name'', lit ''ur name'', lit ''what is your name'', lit ''who are you'']"

definition name_exact :: jsstring where
  "name_exact = lit ''name''"

section \<open>Properties of traces and of the update queue\<close>

lemma fetch_calls_append [simp]: "fetch_calls (xs @ ys) = fetch_calls xs @ fetch_calls ys"
  by (induction xs rule: fetch_calls.induct) simp_all

lemma sending_writes_append [simp]:
  "sending_writes (xs @ ys) = sending_writes xs @ sending_writes ys"
  by (induction xs rule: sending_writes.induct) simp_all

lemma online_writes_append [simp]:
  "online_writes (xs @ ys) = online_writes xs @ online_writes ys"
  by (induction xs rule: online_writes.induct) simp_all

lemma timer_events_append [simp]:
  "timer_events (xs @ ys) = timer_events xs @ timer_events ys"
  by (induction xs rule: timer_events.induct) simp_all

lemma commit_append:
  "commit (xs @ ys) st = (case commit xs st of Inl e \<Rightarrow> Inl e | Inr st' \<Rightarrow> commit ys st')"
  by (induction xs arbitrary: st) (simp_all split: sum.splits)

lemma isCreatorQuestion_Nil: "\<not> isCreatorQuestion []"
  by (simp add: isCreatorQuestion_def normalize_def trim_def toLowerCase_def lit_def)

lemma isNameQuestion_Nil: "\<not> isNameQuestion []"
  by (simp add: isNameQuestion_def normalize_def trim_def toLowerCase_def lit_def)

lemma send2_skip:
  "trim (input st) = [] \<or> sending st \<Longrightarrow> send2 tr st = Returned []"
  by (auto simp: send2_def Let_def)

lemma send1_skip:
  "trim (input st) = [] \<or> sending st \<Longrightarrow> send1 tr st = Returned []"
  by (auto simp: send1_def Let_def)

lemma send2_creator:
  assumes "\<not> sending st" and "isCreatorQuestion (trim (input st))"
  shows "send2 tr st =
           Returned [SetMessages (Append (user (trim (input st)))), SetInput [],
                     SetMessages (Append (assistant (JStr creator_text2)))]"
proof -
  from assms(2) have "trim (input st) \<noteq> []"
    using isCreatorQuestion_Nil by auto
  with assms show ?thesis
    by (simp add: send2_def Let_def)
qed

lemma send2_name:
  assumes "\<not> sending st" and "\<not> isCreatorQuestion (trim (input st))"
    and "isNameQuestion (trim (input st))"
  shows "send2 tr st =
           Returned [SetMessages (Append (user (trim (input st)))), SetInput [],
                     SetMessages (Append (assistant (JStr name_text2)))]"
proof -
  from assms(3) have "trim (input st) \<noteq> []"
    using isNameQuestion_Nil by auto
  with assms show ?thesis
    by (simp add: send2_def Let_def)
qed


lemma message_updates_append [simp]:
  "message_updates (xs @ ys) = message_updates xs @ message_updates ys"
  by (induction xs rule: message_updates.induct) simp_all

lemma templated_assistant: "templated p v = Append m \<Longrightarrow> \<exists>w. m = assistant w"
  by (auto simp: templated_def split: option.splits)

lemma templated_prints: "to_string v \<noteq> None \<Longrightarrow> \<exists>w. templated p v = Append (assistant w)"
  by (auto simp: templated_def)

text \<open>
  Each way out of the \<open>try\<close> block calls \<open>setMessages\<close> once and \<open>setOnline\<close>
  once, and leaves the send state alone.
\<close>

lemma reconcile2_shape:
  "\<exists>u. reconcile2 r d = [SetMessages u, SetOnline (ok r)] \<and>
       (\<forall>m. u = Append m \<longrightarrow> (\<exists>w. m = assistant w)) \<and>
       (ok r \<or> to_string (error_msg2 r d) \<noteq> None \<longrightarrow> (\<exists>w. u = Append (assistant w)))"
proof (cases "ok r")
  case False
  then show ?thesis
    using templated_assistant [of error_prefix2 "error_msg2 r d"]
      templated_prints [of "error_msg2 r d" error_prefix2]
    by (auto simp: reconcile2_def Let_def)
next
  case True
  then show ?thesis
    by (cases "get_prop d (lit ''reply'')") (auto simp: reconcile2_def Let_def)
qed

lemma catch2_shape:
  "catch2 e =
     [SetOnline False,
      SetMessages (Append (assistant
        (JStr (if e = AbortError then timeout_text else connection_text))))]"
  by (cases e) (simp_all add: catch2_def Let_def lit_def)

lemma commit_catch2:
  "commit (catch2 e) s =
     Inr (s\<lparr>messages := messages s @
                 [assistant (JStr (if e = AbortError then timeout_text else connection_text))],
            online := False\<rparr>)"
  by (simp add: catch2_shape)

lemma sending_writes_reconcile2 [simp]: "sending_writes (reconcile2 r d) = []"
  using reconcile2_shape [of r d] by auto

lemma sending_writes_catch2 [simp]: "sending_writes (catch2 e) = []"
  by (simp add: catch2_def Let_def)

text \<open>
  The shape of every send that reaches the network and whose awaited promises settle:
  the user turn, the cleared input, the send state set, the network exchange \<open>io\<close>,
  the reconciliation \<open>out\<close> with its one message updater \<open>u\<close>, the send state
  released.
\<close>

lemma send2_resolves:
  assumes "trim (input st) \<noteq> []" and "\<not> sending st"
    and "\<not> isCreatorQuestion (trim (input st))" and "\<not> isNameQuestion (trim (input st))"
    and "body_settles tr"
  obtains io out u b where
    "send2 tr st =
       Returned ([SetMessages (Append (user (trim (input st)))), SetInput [],
                  SetSending True] @ io @ out @ [SetSending False])"
    and "sending_writes io = []" and "sending_writes out = []"
    and "message_updates io = []" and "message_updates out = [u]"
    and "\<And>s. commit io s = Inr s"
    and "\<And>s. commit out s =
               (case u of
                  Append m \<Rightarrow> Inr (s\<lparr>messages := messages s @ [m], online := b\<rparr>)
                | Throws e \<Rightarrow> Inl e)"
    and "\<And>m. u = Append m \<Longrightarrow> \<exists>w. m = assistant w"
    and "error_text_prints tr \<Longrightarrow> \<exists>w. u = Append (assistant w)"
proof (cases "result tr \<noteq> Pending \<and> settles_after tr < 45000")
  case False
  let ?io = "[SetTimeout 45000,
              FetchCall \<lparr>message = trim (input st),
                         history = historyForServer (messages st), signal = True\<rparr>,
              ControllerAbort, ClearTimeout]"
  from False assms have "send2 tr st =
      Returned ([SetMessages (Append (user (trim (input st)))), SetInput [],
                 SetSending True] @ ?io @ catch2 AbortError @ [SetSending False])"
    by (auto simp: send2_def Let_def fetchWithTimeout_def)
  then show thesis
    by (rule that [where io = ?io and out = "catch2 AbortError" and b = False
          and u = "Append (assistant (JStr timeout_text))"])
       (simp_all add: catch2_shape, blast+)
next
  case True
  let ?io = "[SetTimeout 45000,
              FetchCall \<lparr>message = trim (input st),
                         history = historyForServer (messages st), signal = True\<rparr>,
              ClearTimeout]"
  show thesis
  proof (cases "result tr")
    case Pending
    with True show thesis by simp
  next
    case (Rejected e)
    with True assms have "send2 tr st =
        Returned ([SetMessages (Append (user (trim (input st)))), SetInput [],
                   SetSending True] @ ?io @ catch2 e @ [SetSending False])"
      by (auto simp: send2_def Let_def fetchWithTimeout_def)
    then show thesis
      by (rule that [where io = ?io and out = "catch2 e" and b = False
            and u = "Append (assistant
                  (JStr (if e = AbortError then timeout_text else connection_text)))"])
         (simp_all add: catch2_shape, blast+)
  next
    case (Fulfilled r)
    with assms(5) have settles: "json_result r \<noteq> Pending"
      by (simp add: body_settles_def)
    define d where "d = (case json_result r of Fulfilled x \<Rightarrow> x | _ \<Rightarrow> JNull)"
    from True Fulfilled settles assms have run: "send2 tr st =
        Returned ([SetMessages (Append (user (trim (input st)))), SetInput [],
                   SetSending True] @ ?io @ reconcile2 r d @ [SetSending False])"
      by (cases "json_result r") (auto simp: send2_def Let_def fetchWithTimeout_def d_def)
    obtain u where u: "reconcile2 r d = [SetMessages u, SetOnline (ok r)]"
      and a: "\<And>m. u = Append m \<Longrightarrow> \<exists>w. m = assistant w"
      and p: "ok r \<or> to_string (error_msg2 r d) \<noteq> None \<Longrightarrow> \<exists>w. u = Append (assistant w)"
      using reconcile2_shape [of r d] by blast
    have c: "commit (reconcile2 r d) s =
               (case u of
                  Append m \<Rightarrow> Inr (s\<lparr>messages := messages s @ [m], online := ok r\<rparr>)
                | Throws e \<Rightarrow> Inl e)" for s
      by (cases u) (simp_all add: u)
    have q: "\<exists>w. u = Append (assistant w)" if "error_text_prints tr"
      using that Fulfilled p by (simp add: error_text_prints_def d_def)
    from run show thesis
      by (rule that [where io = ?io and out = "reconcile2 r d" and u = u and b = "ok r"])
         (simp_all add: c a q, simp add: u)
  qed
qed

lemma send1_creator:
  assumes "\<not> sending st" and "isCreatorQuestion (trim (input st))"
  shows "send1 tr st =
           Returned [SetMessages (Append (user (trim (input st)))), SetInput [],
                     SetMessages (Append (assistant (JStr creator_text1)))]"
proof -
  from assms(2) have "trim (input st) \<noteq> []"
    using isCreatorQuestion_Nil by auto
  with assms show ?thesis
    by (simp add: send1_def Let_def)
qed

lemma send1_name:
  assumes "\<not> sending st" and "\<not> isCreatorQuestion (trim (input st))"
    and "isNameQuestion (trim (input st))"
  shows "send1 tr st =
           Returned [SetMessages (Append (user (trim (input st)))), SetInput [],
                     SetMessages (Append (assistant (JStr name_text1)))]"
proof -
  from assms(3) have "trim (input st) \<noteq> []"
    using isNameQuestion_Nil by auto
  with assms show ?thesis
    by (simp add: send1_def Let_def)
qed

text \<open>The plain input used in the examples below.\<close>

lemma hello_plain:
  "trim (lit ''hello'') = lit ''hello''"
  "\<not> isCreatorQuestion (lit ''hello'')"
  "\<not> isNameQuestion (lit ''hello'')"
  by (simp_all add: isCreatorQuestion_def isNameQuestion_def normalize_def trim_def
      toLowerCase_def lit_def lower_unit_def is_space_def)

lemma hello_state:
  "trim (input (initial_state\<lparr>input := lit ''hello''\<rparr>)) \<noteq> []"
  "\<not> sending (initial_state\<lparr>input := lit ''hello''\<rparr>)"
  "\<not> isCreatorQuestion (trim (input (initial_state\<lparr>input := lit ''hello''\<rparr>)))"
  "\<not> isNameQuestion (trim (input (initial_state\<lparr>input := lit ''hello''\<rparr>)))"
  by (simp_all add: hello_plain initial_state_def) (simp add: lit_def)

lemma fetch_calls_reconcile2 [simp]: "fetch_calls (reconcile2 r d) = []"
  by (cases "get_prop d (lit ''reply'')") (auto simp: reconcile2_def Let_def)

lemma fetch_calls_catch2 [simp]: "fetch_calls (catch2 e) = []"
  by (simp add: catch2_def Let_def)

text \<open>The trace of a send that reaches the network, outcome by outcome.\<close>

lemma send2_timed_out:
  assumes "trim (input st) \<noteq> []" and "\<not> sending st"
    and "\<not> isCreatorQuestion (trim (input st))" and "\<not> isNameQuestion (trim (input st))"
    and "result tr = Pending \<or> 45000 \<le> settles_after tr"
  shows "send2 tr st =
      Returned ([SetMessages (Append (user (trim (input st)))), SetInput [],
                 SetSending True, SetTimeout 45000,
                 FetchCall \<lparr>message = trim (input st),
                            history = historyForServer (messages st), signal = True\<rparr>,
                 ControllerAbort, ClearTimeout] @ catch2 AbortError @ [SetSending False])"
  using assms by (auto simp: send2_def Let_def fetchWithTimeout_def)

lemma send2_rejected:
  assumes "trim (input st) \<noteq> []" and "\<not> sending st"
    and "\<not> isCreatorQuestion (trim (input st))" and "\<not> isNameQuestion (trim (input st))"
    and "settles_after tr < 45000" and "result tr = Rejected e"
  shows "send2 tr st =
      Returned ([SetMessages (Append (user (trim (input st)))), SetInput [],
                 SetSending True, SetTimeout 45000,
                 FetchCall \<lparr>message = trim (input st),
                            history = historyForServer (messages st), signal = True\<rparr>,
                 ClearTimeout] @ catch2 e @ [SetSending False])"
  using assms by (auto simp: send2_def Let_def fetchWithTimeout_def)

lemma send2_responded:
  assumes "trim (input st) \<noteq> []" and "\<not> sending st"
    and "\<not> isCreatorQuestion (trim (input st))" and "\<not> isNameQuestion (trim (input st))"
    and "settles_after tr < 45000" and "result tr = Fulfilled r"
    and "json_result r \<noteq> Pending"
  shows "send2 tr st =
      Returned ([SetMessages (Append (user (trim (input st)))), SetInput [],
                 SetSending True, SetTimeout 45000,
                 FetchCall \<lparr>message = trim (input st),
                            history = historyForServer (messages st), signal = True\<rparr>,
                 ClearTimeout] @
                reconcile2 r (case json_result r of Fulfilled d \<Rightarrow> d | _ \<Rightarrow> JNull) @
                [SetSending False])"
  using assms
  by (cases "json_result r") (auto simp: send2_def Let_def fetchWithTimeout_def)

lemma texts_differ: "timeout_text \<noteq> connection_text"
  by (simp add: timeout_text_def connection_text_def lit_def)

lemma online_writes_reconcile2 [simp]: "online_writes (reconcile2 r d) = [ok r]"
  by (cases "get_prop d (lit ''reply'')") (auto simp: reconcile2_def Let_def)

lemma reconcile2_no_reply:
  assumes "ok r" and "\<not> is_truthy (get_prop d (lit ''reply''))"
  shows "reconcile2 r d =
           [SetMessages (Append (assistant (JStr no_reply_text))), SetOnline True]"
  using assms
  by (cases "get_prop d (lit ''reply'')") (simp_all add: reconcile2_def Let_def)

lemma get_prop_JNull [simp]: "get_prop JNull k = None"
  by (simp add: get_prop_def)

lemma length_slice_last [simp]: "length (slice_last n xs) = min n (length xs)"
  by (auto simp: slice_last_def)

text \<open>The classifiers, read as a search through their literal patterns.\<close>

lemma isCreatorQuestion_patterns:
  "isCreatorQuestion msg \<longleftrightarrow> list_ex (str_includes (normalize msg)) creator_patterns"
  by (simp add: isCreatorQuestion_def creator_patterns_def Let_def)

lemma isNameQuestion_patterns:
  "isNameQuestion msg \<longleftrightarrow>
     list_ex (str_includes (normalize msg)) name_patterns \<or> normalize msg = name_exact"
  by (auto simp: isNameQuestion_def name_patterns_def name_exact_def Let_def)

lemma patterns_disjoint:
  "set creator_patterns \<inter> set (name_exact # name_patterns) = {}"
  by (simp add: creator_patterns_def name_patterns_def name_exact_def lit_def)

text \<open>The first variant once it has passed the guard and the two classifiers.\<close>

lemma send1_begun:
  assumes "trim (input st) \<noteq> []" and "\<not> sending st"
    and "\<not> isCreatorQuestion (trim (input st))" and "\<not> isNameQuestion (trim (input st))"
  shows "send1 tr st =
     (let begun = [SetMessages (Append (user (trim (input st)))), SetInput [],
                   SetSending True,
                   FetchCall \<lparr>message = trim (input st),
                              history = historyForServer (messages st), signal = False\<rparr>]
      in case result tr of
           Pending \<Rightarrow> Suspended begun
         | Rejected e \<Rightarrow> Returned (begun @ catch1 @ [SetSending False])
         | Fulfilled r \<Rightarrow>
             (case json_result r of
                Pending \<Rightarrow> Suspended begun
              | Rejected e \<Rightarrow> Returned (begun @ catch1 @ [SetSending False])
              | Fulfilled data \<Rightarrow> Returned (begun @ reconcile1 data @ [SetSending False])))"
  using assms by (simp add: send1_def Let_def split: promise.splits)

lemma reconcile1_shape:
  "\<exists>u. reconcile1 d = [SetMessages u, SetOnline True]"
  by (simp add: reconcile1_def)

lemma fetch_calls_reconcile1 [simp]: "fetch_calls (reconcile1 d) = []"
  by (simp add: reconcile1_def)

lemma timer_events_reconcile1 [simp]: "timer_events (reconcile1 d) = []"
  by (simp add: reconcile1_def)

lemma online_writes_reconcile1 [simp]: "online_writes (reconcile1 d) = [True]"
  by (simp add: reconcile1_def)

lemma reconcile1_commits:
  assumes "d \<noteq> JNull"
    and "\<And>v. get_prop d (lit ''error'') = Some v \<Longrightarrow> truthy v \<Longrightarrow> to_string v \<noteq> None"
  shows "\<exists>v. \<forall>s. commit (reconcile1 d) s =
           Inr (s\<lparr>messages := messages s @ [assistant v], online := True\<rparr>)"
proof (cases "get_prop d (lit ''error'')")
  case None
  with assms(1) show ?thesis
    by (auto simp: reconcile1_def reply_updater1_def)
next
  case (Some v)
  show ?thesis
  proof (cases "truthy v")
    case False
    with Some assms(1) show ?thesis
      by (auto simp: reconcile1_def reply_updater1_def)
  next
    case True
    with Some assms(2) obtain w where "templated error_prefix1 v = Append (assistant w)"
      using templated_prints by blast
    with Some True show ?thesis
      by (auto simp: reconcile1_def)
  qed
qed

section \<open>The claims\<close>

text \<open>
  C1. An idle component whose trimmed input matches a creator pattern: \<open>send\<close> queues
  the user turn, clears the input and queues exactly one assistant message, the fixed
  creator text; it calls no network function and never writes the send state, which
  stays idle. A trimmed input that matches a name pattern and no creator pattern gets
  the fixed identity text in the same way. Both variants of the component behave so,
  each with its own spelling of the fixed texts.
\<close>

theorem canned_reply_without_network:
  assumes "\<not> sending st"
  shows "(isCreatorQuestion (trim (input st)) \<longrightarrow>
            send2 tr st =
              Returned [SetMessages (Append (user (trim (input st)))), SetInput [],
                        SetMessages (Append (assistant (JStr creator_text2)))] \<and>
            send1 tr st =
              Returned [SetMessages (Append (user (trim (input st)))), SetInput [],
                        SetMessages (Append (assistant (JStr creator_text1)))] \<and>
            commit (trace (send2 tr st)) st =
              Inr (st\<lparr>input := [],
                      messages := messages st @
                        [user (trim (input st)), assistant (JStr creator_text2)]\<rparr>)) \<and>
         (\<not> isCreatorQuestion (trim (input st)) \<and> isNameQuestion (trim (input st)) \<longrightarrow>
            send2 tr st =
              Returned [SetMessages (Append (user (trim (input st)))), SetInput [],
                        SetMessages (Append (assistant (JStr name_text2)))] \<and>
            send1 tr st =
              Returned [SetMessages (Append (user (trim (input st)))), SetInput [],
                        SetMessages (Append (assistant (JStr name_text1)))] \<and>
            commit (trace (send2 tr st)) st =
              Inr (st\<lparr>input := [],
                      messages := messages st @
                        [user (trim (input st)), assistant (JStr name_text2)]\<rparr>)) \<and>
         (isCreatorQuestion (trim (input st)) \<or> isNameQuestion (trim (input st)) \<longrightarrow>
            fetch_calls (trace (send2 tr st)) = [] \<and>
            fetch_calls (trace (send1 tr st)) = [] \<and>
            sending_writes (trace (send2 tr st)) = [] \<and>
            sending_writes (trace (send1 tr st)) = [])"
  using assms
  by (cases "isCreatorQuestion (trim (input st))")
     (simp_all add: send2_creator send1_creator send2_name send1_name)

theorem canned_reply_without_network_witness:
  "send2 \<lparr>settles_after = 0, result = Pending\<rparr>
     (initial_state\<lparr>input := lit '' Who made you? ''\<rparr>) =
     Returned [SetMessages (Append (user (lit ''Who made you?''))), SetInput [],
               SetMessages (Append (assistant (JStr creator_text2)))] \<and>
   fetch_calls (trace (send2 \<lparr>settles_after = 0, result = Pending\<rparr>
     (initial_state\<lparr>input := lit '' Who made you? ''\<rparr>))) = [] \<and>
   send2 \<lparr>settles_after = 0, result = Pending\<rparr>
     (initial_state\<lparr>input := lit ''What is your name?''\<rparr>) =
     Returned [SetMessages (Append (user (lit ''What is your name?''))), SetInput [],
               SetMessages (Append (assistant (JStr name_text2)))]"
proof -
  let ?tr = "\<lparr>settles_after = 0, result = Pending\<rparr>"
  let ?c = "initial_state\<lparr>input := lit '' Who made you? ''\<rparr>"
  let ?n = "initial_state\<lparr>input := lit ''What is your name?''\<rparr>"
  have idle: "\<not> sending ?c" "\<not> sending ?n"
    by (simp_all add: initial_state_def)
  have tc: "trim (lit '' Who made you? '') = lit ''Who made you?''"
    by (simp add: trim_def lit_def is_space_def)
  have tn: "trim (lit ''What is your name?'') = lit ''What is your name?''"
    by (simp add: trim_def lit_def is_space_def)
  have c: "isCreatorQuestion (lit ''Who made you?'')"
    by (simp add: isCreatorQuestion_def normalize_def trim_def toLowerCase_def lit_def
        lower_unit_def is_space_def)
  have n: "\<not> isCreatorQuestion (lit ''What is your name?'') \<and>
           isNameQuestion (lit ''What is your name?'')"
    by (simp add: isCreatorQuestion_def isNameQuestion_def normalize_def trim_def
        toLowerCase_def lit_def lower_unit_def is_space_def)
  show ?thesis
    using canned_reply_without_network [OF idle(1), of ?tr]
      canned_reply_without_network [OF idle(2), of ?tr] c n
    by (simp add: tc tn)
qed

text \<open>
  C2, as stated, fails on the error branches: the user turn is queued before the
  request, so a send that ends in a timeout or a network failure has added two
  messages to a conversation of length one, not one.
\<close>

theorem error_branch_length_counterexample:
  "commit (trace (send2 \<lparr>settles_after = 0, result = Pending\<rparr>
      (initial_state\<lparr>input := lit ''hello''\<rparr>))) (initial_state\<lparr>input := lit ''hello''\<rparr>) =
     Inr \<lparr>online = False, input = [], sending = False,
          messages = [assistant (JStr greeting), user (lit ''hello''),
                      assistant (JStr timeout_text)]\<rparr> \<and>
   commit (trace (send2 \<lparr>settles_after = 10, result = Rejected TypeError\<rparr>
      (initial_state\<lparr>input := lit ''hello''\<rparr>))) (initial_state\<lparr>input := lit ''hello''\<rparr>) =
     Inr \<lparr>online = False, input = [], sending = False,
          messages = [assistant (JStr greeting), user (lit ''hello''),
                      assistant (JStr connection_text)]\<rparr> \<and>
   length (messages (initial_state\<lparr>input := lit ''hello''\<rparr>)) = 1 \<and>
   length [assistant (JStr greeting), user (lit ''hello''), assistant (JStr timeout_text)]
     \<noteq> 1 + 1"
  by (simp add: send2_def Let_def hello_plain fetchWithTimeout_def catch2_def
      initial_state_def) (simp add: lit_def)

text \<open>
  C2, amended. A send that reaches the network and whose awaited promises settle calls
  \<open>setMessages\<close> exactly twice in every outcome branch, the timeout and
  network-failure branches included: with the user turn and with one assistant
  message. Once React has applied the updates, a conversation of length \<open>N\<close> has
  length \<open>N + 2\<close>. React can apply them unless the error text of a non-success
  response cannot be converted to a string.
\<close>

theorem send_appends_user_and_one_assistant:
  assumes "trim (input st) \<noteq> []" and "\<not> sending st"
    and "\<not> isCreatorQuestion (trim (input st))" and "\<not> isNameQuestion (trim (input st))"
    and "body_settles tr"
  shows "\<exists>acts u. send2 tr st = Returned acts \<and>
           message_updates acts = [Append (user (trim (input st))), u] \<and>
           (\<forall>m. u = Append m \<longrightarrow> role m = lit ''assistant'') \<and>
           (\<forall>st'. commit acts st = Inr st' \<longrightarrow>
              (\<exists>v. messages st' = messages st @ [user (trim (input st)), assistant v]) \<and>
              length (messages st') = length (messages st) + 2) \<and>
           (error_text_prints tr \<longrightarrow> (\<exists>st'. commit acts st = Inr st'))"
proof -
  obtain io out u b where
    run: "send2 tr st =
       Returned ([SetMessages (Append (user (trim (input st)))), SetInput [],
                  SetSending True] @ io @ out @ [SetSending False])"
    and ups: "message_updates io = []" "message_updates out = [u]"
    and io: "\<And>s. commit io s = Inr s"
    and out: "\<And>s. commit out s =
               (case u of
                  Append m \<Rightarrow> Inr (s\<lparr>messages := messages s @ [m], online := b\<rparr>)
                | Throws e \<Rightarrow> Inl e)"
    and asst: "\<And>m. u = Append m \<Longrightarrow> \<exists>w. m = assistant w"
    and prints: "error_text_prints tr \<Longrightarrow> \<exists>w. u = Append (assistant w)"
    by (rule send2_resolves [OF assms]) (rule that)
  let ?acts = "[SetMessages (Append (user (trim (input st)))), SetInput [],
                SetSending True] @ io @ out @ [SetSending False]"
  have "message_updates ?acts = [Append (user (trim (input st))), u]"
    by (simp add: ups)
  moreover have "role m = lit ''assistant''" if "u = Append m" for m
    using asst [OF that] by (auto simp: assistant_def)
  moreover have "(\<exists>v. messages st' = messages st @ [user (trim (input st)), assistant v]) \<and>
      length (messages st') = length (messages st) + 2"
    if "commit ?acts st = Inr st'" for st'
  proof (cases u)
    case (Throws e)
    with that show ?thesis
      by (simp add: commit_append io out)
  next
    case (Append m)
    then obtain w where "m = assistant w"
      using asst by blast
    with that Append show ?thesis
      by (auto simp: commit_append io out)
  qed
  moreover have "\<exists>st'. commit ?acts st = Inr st'" if "error_text_prints tr"
    using prints [OF that] by (auto simp: commit_append io out)
  ultimately show ?thesis
    unfolding run by blast
qed

theorem send_appends_user_and_one_assistant_witness:
  "\<exists>st' v. commit (trace (send2 \<lparr>settles_after = 10, result = Rejected TypeError\<rparr>
      (initial_state\<lparr>input := lit ''hello''\<rparr>))) (initial_state\<lparr>input := lit ''hello''\<rparr>)
      = Inr st' \<and>
     messages st' = [assistant (JStr greeting), user (lit ''hello''), assistant v]"
proof -
  let ?tr = "\<lparr>settles_after = 10, result = Rejected TypeError\<rparr>"
  let ?st = "initial_state\<lparr>input := lit ''hello''\<rparr>"
  have b: "body_settles ?tr" and p: "error_text_prints ?tr"
    by (simp_all add: body_settles_def error_text_prints_def)
  from send_appends_user_and_one_assistant [OF hello_state b]
  obtain acts where run: "send2 ?tr ?st = Returned acts"
    and m: "\<forall>st'. commit acts ?st = Inr st' \<longrightarrow>
              (\<exists>v. messages st' = messages ?st @ [user (trim (input ?st)), assistant v])"
    and ex: "error_text_prints ?tr \<longrightarrow> (\<exists>st'. commit acts ?st = Inr st')"
    by blast
  from ex p obtain st' where st': "commit acts ?st = Inr st'"
    by blast
  with m obtain v where
    "messages st' = messages ?st @ [user (trim (input ?st)), assistant v]"
    by blast
  then have "messages st' = [assistant (JStr greeting), user (lit ''hello''), assistant v]"
    by (simp add: hello_plain initial_state_def)
  with run st' show ?thesis
    by auto
qed

text \<open>
  C3. Whatever the length of the conversation, the history view has at most ten
  entries (the last ten, or all when there are fewer), and the role of each entry is
  one of the two strings \<open>assistant\<close> and \<open>user\<close>: \<open>assistant\<close> where the message
  had exactly that role, \<open>user\<close> for every other role. The text is carried over.
\<close>

theorem history_window_bounded:
  "length (historyForServer ms) = min 10 (length ms) \<and>
   length (historyForServer ms) \<le> 10 \<and>
   (\<forall>e \<in> set (historyForServer ms). role e = lit ''assistant'' \<or> role e = lit ''user'') \<and>
   (\<forall>i < length (historyForServer ms).
      role (historyForServer ms ! i) =
        (if role (slice_last 10 ms ! i) = lit ''assistant'' then lit ''assistant''
         else lit ''user'') \<and>
      text' (historyForServer ms ! i) = text' (slice_last 10 ms ! i))"
  by (auto simp: historyForServer_def)

theorem history_window_bounded_witness:
  "length (historyForServer
     (\<lparr>role = lit ''user'', text' = JStr (lit ''1'')\<rparr> #
      \<lparr>role = lit ''assistant'', text' = JStr (lit ''2'')\<rparr> #
      \<lparr>role = lit ''system'', text' = JStr (lit ''3'')\<rparr> #
      \<lparr>role = lit ''assistant'', text' = JStr (lit ''4'')\<rparr> #
      replicate 8 \<lparr>role = lit ''user'', text' = JStr (lit ''5'')\<rparr>)) = 10 \<and>
   role (historyForServer
     (\<lparr>role = lit ''user'', text' = JStr (lit ''1'')\<rparr> #
      \<lparr>role = lit ''assistant'', text' = JStr (lit ''2'')\<rparr> #
      \<lparr>role = lit ''system'', text' = JStr (lit ''3'')\<rparr> #
      \<lparr>role = lit ''assistant'', text' = JStr (lit ''4'')\<rparr> #
      replicate 8 \<lparr>role = lit ''user'', text' = JStr (lit ''5'')\<rparr>) ! 0) = lit ''user'' \<and>
   role (historyForServer
     (\<lparr>role = lit ''user'', text' = JStr (lit ''1'')\<rparr> #
      \<lparr>role = lit ''assistant'', text' = JStr (lit ''2'')\<rparr> #
      \<lparr>role = lit ''system'', text' = JStr (lit ''3'')\<rparr> #
      \<lparr>role = lit ''assistant'', text' = JStr (lit ''4'')\<rparr> #
      replicate 8 \<lparr>role = lit ''user'', text' = JStr (lit ''5'')\<rparr>) ! 1) = lit ''assistant''"
proof -
  let ?ms = "\<lparr>role = lit ''user'', text' = JStr (lit ''1'')\<rparr> #
      \<lparr>role = lit ''assistant'', text' = JStr (lit ''2'')\<rparr> #
      \<lparr>role = lit ''system'', text' = JStr (lit ''3'')\<rparr> #
      \<lparr>role = lit ''assistant'', text' = JStr (lit ''4'')\<rparr> #
      replicate 8 \<lparr>role = lit ''user'', text' = JStr (lit ''5'')\<rparr>"
  have w: "slice_last 10 ?ms =
      \<lparr>role = lit ''system'', text' = JStr (lit ''3'')\<rparr> #
      \<lparr>role = lit ''assistant'', text' = JStr (lit ''4'')\<rparr> #
      replicate 8 \<lparr>role = lit ''user'', text' = JStr (lit ''5'')\<rparr>"
    by (simp add: slice_last_def)
  have ne: "lit ''system'' \<noteq> lit ''assistant''"
    by (simp add: lit_def)
  from history_window_bounded [of ?ms]
  have len: "length (historyForServer ?ms) = min 10 (length ?ms)"
    and pt: "\<forall>i < length (historyForServer ?ms).
      role (historyForServer ?ms ! i) =
        (if role (slice_last 10 ?ms ! i) = lit ''assistant'' then lit ''assistant''
         else lit ''user'')"
    by simp_all
  from len have l: "length (historyForServer ?ms) = 10"
    by simp
  from pt l have "role (historyForServer ?ms ! 0) =
        (if role (slice_last 10 ?ms ! 0) = lit ''assistant'' then lit ''assistant''
         else lit ''user'')"
    and "role (historyForServer ?ms ! 1) =
        (if role (slice_last 10 ?ms ! 1) = lit ''assistant'' then lit ''assistant''
         else lit ''user'')"
    by simp_all
  with l show ?thesis
    by (simp add: w ne)
qed

text \<open>
  C4, as stated, fails: the first send of a session asks the server with a history
  that holds the greeting only. The user turn that \<open>send\<close> has just queued is not in
  it, because \<open>historyForServer\<close> was computed for the render that \<open>send\<close> belongs
  to and \<open>setMessages\<close> changes neither that value nor \<open>messages\<close>.
\<close>

theorem history_excludes_current_turn_counterexample:
  "fetch_calls (trace (send2
      \<lparr>settles_after = 10,
        result = Fulfilled \<lparr>status = 200,
          json_result = Fulfilled (JObj [(lit ''reply'', JStr (lit ''Hi there!''))])\<rparr>\<rparr>
      (initial_state\<lparr>input := lit ''hello''\<rparr>))) =
     [\<lparr>message = lit ''hello'', history = [assistant (JStr greeting)], signal = True\<rparr>] \<and>
   user (lit ''hello'') \<notin> set [assistant (JStr greeting)]"
  by (simp add: send2_def Let_def hello_plain fetchWithTimeout_def initial_state_def
      historyForServer_def slice_last_def)
     (simp add: assistant_def user_def lit_def)

text \<open>
  C4, amended. A send that reaches the network makes exactly one call. Its
  \<open>history\<close> is the window over the conversation as it was when \<open>send\<close> was
  invoked, before the user turn was queued; the user's current text travels in the
  \<open>message\<close> field.
\<close>

theorem history_is_window_of_render:
  assumes "trim (input st) \<noteq> []" and "\<not> sending st"
    and "\<not> isCreatorQuestion (trim (input st))" and "\<not> isNameQuestion (trim (input st))"
  shows "fetch_calls (trace (send2 tr st)) =
           [\<lparr>message = trim (input st), history = historyForServer (messages st),
             signal = True\<rparr>]"
proof (cases "result tr \<noteq> Pending \<and> settles_after tr < 45000")
  case False
  with assms show ?thesis
    by (auto simp: send2_def Let_def fetchWithTimeout_def)
next
  case True
  show ?thesis
  proof (cases "result tr")
    case Pending
    with True show ?thesis by simp
  next
    case (Rejected e)
    with True assms show ?thesis
      by (auto simp: send2_def Let_def fetchWithTimeout_def)
  next
    case (Fulfilled r)
    with True assms show ?thesis
      by (cases "json_result r") (auto simp: send2_def Let_def fetchWithTimeout_def)
  qed
qed

theorem history_is_window_of_render_witness:
  "fetch_calls (trace (send2 \<lparr>settles_after = 0, result = Pending\<rparr>
      (initial_state\<lparr>input := lit ''hello''\<rparr>))) =
     [\<lparr>message = lit ''hello'', history = [assistant (JStr greeting)], signal = True\<rparr>]"
  using history_is_window_of_render [OF hello_state, of "\<lparr>settles_after = 0, result = Pending\<rparr>"]
  by (simp add: hello_plain initial_state_def historyForServer_def slice_last_def)
     (simp add: assistant_def)

text \<open>
  C5, as stated, fails: a non-canned send whose response arrives in time but whose body
  read never settles stays suspended at \<open>await r.json()\<close>. The timer was cleared when
  the response arrived, the \<open>finally\<close> block is never reached, and the only write to
  the send state is \<open>true\<close>: the component remains sending.
\<close>

theorem stalled_body_stays_sending_counterexample:
  "send2 \<lparr>settles_after = 10,
          result = Fulfilled \<lparr>status = 200, json_result = Pending\<rparr>\<rparr>
     (initial_state\<lparr>input := lit ''hello''\<rparr>) =
     Suspended [SetMessages (Append (user (lit ''hello''))), SetInput [], SetSending True,
                SetTimeout 45000,
                FetchCall \<lparr>message = lit ''hello'',
                           history = [assistant (JStr greeting)], signal = True\<rparr>,
                ClearTimeout] \<and>
   sending_writes (trace (send2 \<lparr>settles_after = 10,
          result = Fulfilled \<lparr>status = 200, json_result = Pending\<rparr>\<rparr>
     (initial_state\<lparr>input := lit ''hello''\<rparr>))) = [True] \<and>
   commit (trace (send2 \<lparr>settles_after = 10,
          result = Fulfilled \<lparr>status = 200, json_result = Pending\<rparr>\<rparr>
     (initial_state\<lparr>input := lit ''hello''\<rparr>))) (initial_state\<lparr>input := lit ''hello''\<rparr>) =
     Inr \<lparr>online = True, input = [], sending = True,
          messages = [assistant (JStr greeting), user (lit ''hello'')]\<rparr>"
  by (simp add: send2_def Let_def hello_plain fetchWithTimeout_def initial_state_def
      historyForServer_def slice_last_def)
     (simp add: assistant_def lit_def)

text \<open>
  C5, amended. A send that reaches the network (idle component, input not empty after
  trimming and matched by neither classifier) runs to its end in each of the five
  outcome branches: timeout, network failure, non-success status, reply, or success
  without a usable reply. It then writes the send state exactly twice, \<open>true\<close>
  before the request and \<open>false\<close> in the \<open>finally\<close> block, which is its last action,
  and the component is idle in every state that React reaches by applying the updates.
  (It reaches one unless the error text of a non-success response cannot be converted
  to a string.) One of the five branches is reached unless the response arrives in
  time and its body read never settles.
\<close>

theorem sending_released_once:
  assumes "trim (input st) \<noteq> []" and "\<not> sending st"
    and "\<not> isCreatorQuestion (trim (input st))" and "\<not> isNameQuestion (trim (input st))"
    and "\<not> body_stalls 45000 tr"
  shows "\<exists>acts. send2 tr st = Returned acts \<and>
           sending_writes acts = [True, False] \<and>
           last acts = SetSending False \<and>
           (\<forall>st'. commit acts st = Inr st' \<longrightarrow> \<not> sending st') \<and>
           (error_text_prints tr \<longrightarrow> (\<exists>st'. commit acts st = Inr st'))"
proof -
  note idle = assms(1-4)
  show ?thesis
  proof (cases "result tr = Pending \<or> 45000 \<le> settles_after tr")
    case True
    from send2_timed_out [OF idle True] show ?thesis
      by (simp add: commit_append commit_catch2)
  next
    case False
    with assms(5) have settles: "body_settles tr"
      by (auto simp: body_stalls_def body_settles_def split: promise.splits)
    obtain io out u b where
      run: "send2 tr st =
         Returned ([SetMessages (Append (user (trim (input st)))), SetInput [],
                    SetSending True] @ io @ out @ [SetSending False])"
      and w: "sending_writes io = []" "sending_writes out = []"
      and io: "\<And>s. commit io s = Inr s"
      and out: "\<And>s. commit out s =
                 (case u of
                    Append m \<Rightarrow> Inr (s\<lparr>messages := messages s @ [m], online := b\<rparr>)
                  | Throws e \<Rightarrow> Inl e)"
      and prints: "error_text_prints tr \<Longrightarrow> \<exists>w. u = Append (assistant w)"
      by (rule send2_resolves [OF idle settles]) (rule that)
    let ?acts = "[SetMessages (Append (user (trim (input st)))), SetInput [],
                  SetSending True] @ io @ out @ [SetSending False]"
    have "sending_writes ?acts = [True, False]" and "last ?acts = SetSending False"
      by (simp_all add: w)
    moreover have "\<not> sending st'" if "commit ?acts st = Inr st'" for st'
      using that by (cases u) (auto simp: commit_append io out)
    moreover have "\<exists>st'. commit ?acts st = Inr st'" if "error_text_prints tr"
      using prints [OF that] by (auto simp: commit_append io out)
    ultimately show ?thesis
      unfolding run by blast
  qed
qed

theorem sending_released_once_witness:
  "sending_writes (trace (send2 \<lparr>settles_after = 0, result = Pending\<rparr>
      (initial_state\<lparr>input := lit ''hello''\<rparr>))) = [True, False] \<and>
   sending_writes (trace (send2 \<lparr>settles_after = 10, result = Rejected TypeError\<rparr>
      (initial_state\<lparr>input := lit ''hello''\<rparr>))) = [True, False] \<and>
   sending_writes (trace (send2
      \<lparr>settles_after = 10,
        result = Fulfilled \<lparr>status = 500,
          json_result = Fulfilled (JObj [(lit ''error'', JStr (lit ''db down''))])\<rparr>\<rparr>
      (initial_state\<lparr>input := lit ''hello''\<rparr>))) = [True, False] \<and>
   sending_writes (trace (send2
      \<lparr>settles_after = 10,
        result = Fulfilled \<lparr>status = 200,
          json_result = Fulfilled (JObj [(lit ''reply'', JStr (lit ''Hi there!''))])\<rparr>\<rparr>
      (initial_state\<lparr>input := lit ''hello''\<rparr>))) = [True, False] \<and>
   sending_writes (trace (send2
      \<lparr>settles_after = 10,
        result = Fulfilled \<lparr>status = 200, json_result = Rejected SyntaxError\<rparr>\<rparr>
      (initial_state\<lparr>input := lit ''hello''\<rparr>))) = [True, False] \<and>
   sending_writes (trace (send2
      \<lparr>settles_after = 60000,
        result = Fulfilled \<lparr>status = 200, json_result = Pending\<rparr>\<rparr>
      (initial_state\<lparr>input := lit ''hello''\<rparr>))) = [True, False]"
proof -
  let ?st = "initial_state\<lparr>input := lit ''hello''\<rparr>"
  have released: "sending_writes (trace (send2 tr ?st)) = [True, False]"
    if "\<not> body_stalls 45000 tr" for tr
  proof -
    from sending_released_once [OF hello_state that]
    obtain acts where "send2 tr ?st = Returned acts" and "sending_writes acts = [True, False]"
      by blast
    then show ?thesis
      by simp
  qed
  show ?thesis
    by (intro conjI released) (simp_all add: body_stalls_def)
qed

text \<open>
  C6. When the timer of the bounded request fires before the network settles the
  call, \<open>fetchWithTimeout\<close> rejects with the abort error, and \<open>send\<close> shows the
  timeout text. A network failure that is not an abort shows the connection-error text,
  which is a different text. Both outcomes leave the connectivity flag offline.
\<close>

theorem timeout_is_told_apart:
  assumes "trim (input st) \<noteq> []" and "\<not> sending st"
    and "\<not> isCreatorQuestion (trim (input st))" and "\<not> isNameQuestion (trim (input st))"
  shows "(result tr = Pending \<or> ms \<le> settles_after tr \<longrightarrow>
            snd (fetchWithTimeout tr options ms) = Rejected AbortError) \<and>
         (result tr = Pending \<or> 45000 \<le> settles_after tr \<longrightarrow>
            commit (trace (send2 tr st)) st =
              Inr (st\<lparr>online := False, input := [], sending := False,
                      messages := messages st @
                        [user (trim (input st)), assistant (JStr timeout_text)]\<rparr>)) \<and>
         (settles_after tr < 45000 \<and> result tr = Rejected e \<and> e \<noteq> AbortError \<longrightarrow>
            commit (trace (send2 tr st)) st =
              Inr (st\<lparr>online := False, input := [], sending := False,
                      messages := messages st @
                        [user (trim (input st)), assistant (JStr connection_text)]\<rparr>)) \<and>
         timeout_text \<noteq> connection_text"
proof (intro conjI impI)
  assume "result tr = Pending \<or> ms \<le> settles_after tr"
  then show "snd (fetchWithTimeout tr options ms) = Rejected AbortError"
    by (auto simp: fetchWithTimeout_def)
next
  assume "result tr = Pending \<or> 45000 \<le> settles_after tr"
  from send2_timed_out [OF assms this]
  show "commit (trace (send2 tr st)) st =
          Inr (st\<lparr>online := False, input := [], sending := False,
                  messages := messages st @
                    [user (trim (input st)), assistant (JStr timeout_text)]\<rparr>)"
    by (simp add: commit_append commit_catch2)
next
  assume "settles_after tr < 45000 \<and> result tr = Rejected e \<and> e \<noteq> AbortError"
  then have a: "settles_after tr < 45000" "result tr = Rejected e" "e \<noteq> AbortError"
    by simp_all
  from send2_rejected [OF assms a(1,2)] a(3)
  show "commit (trace (send2 tr st)) st =
          Inr (st\<lparr>online := False, input := [], sending := False,
                  messages := messages st @
                    [user (trim (input st)), assistant (JStr connection_text)]\<rparr>)"
    by (simp add: commit_append commit_catch2)
next
  show "timeout_text \<noteq> connection_text"
    by (rule texts_differ)
qed

theorem timeout_is_told_apart_witness:
  "commit (trace (send2 \<lparr>settles_after = 60000,
        result = Fulfilled \<lparr>status = 200, json_result = Fulfilled JNull\<rparr>\<rparr>
      (initial_state\<lparr>input := lit ''hello''\<rparr>))) (initial_state\<lparr>input := lit ''hello''\<rparr>) =
     Inr \<lparr>online = False, input = [], sending = False,
          messages = [assistant (JStr greeting), user (lit ''hello''),
                      assistant (JStr timeout_text)]\<rparr> \<and>
   commit (trace (send2 \<lparr>settles_after = 10, result = Rejected TypeError\<rparr>
      (initial_state\<lparr>input := lit ''hello''\<rparr>))) (initial_state\<lparr>input := lit ''hello''\<rparr>) =
     Inr \<lparr>online = False, input = [], sending = False,
          messages = [assistant (JStr greeting), user (lit ''hello''),
                      assistant (JStr connection_text)]\<rparr>"
  using timeout_is_told_apart [OF hello_state,
      of "\<lparr>settles_after = 60000,
            result = Fulfilled \<lparr>status = 200, json_result = Fulfilled JNull\<rparr>\<rparr>"]
    timeout_is_told_apart [OF hello_state,
      of "\<lparr>settles_after = 10, result = Rejected TypeError\<rparr>" _ _ TypeError]
  by (simp add: hello_plain initial_state_def)

text \<open>
  C7. A response with a success status arrives in time, and its body gives no usable
  reply: it does not parse, or the \<open>reply\<close> field is missing, or it is the empty
  string (or any other value that counts as false). Then \<open>send\<close> shows the fixed text
  \<open>No reply.\<close> and the only write to the connectivity flag is \<open>true\<close>: the flag is
  online afterwards.
\<close>

theorem success_without_reply:
  assumes "trim (input st) \<noteq> []" and "\<not> sending st"
    and "\<not> isCreatorQuestion (trim (input st))" and "\<not> isNameQuestion (trim (input st))"
    and "settles_after tr < 45000" and "result tr = Fulfilled r" and "ok r"
    and "json_result r = Rejected e \<or>
         (json_result r = Fulfilled d \<and>
          (get_prop d (lit ''reply'') = None \<or>
           get_prop d (lit ''reply'') = Some (JStr []) \<or>
           \<not> is_truthy (get_prop d (lit ''reply''))))"
  shows "commit (trace (send2 tr st)) st =
           Inr (st\<lparr>online := True, input := [], sending := False,
                   messages := messages st @
                     [user (trim (input st)), assistant (JStr no_reply_text)]\<rparr>) \<and>
         online_writes (trace (send2 tr st)) = [True]"
proof -
  define data where "data = (case json_result r of Fulfilled x \<Rightarrow> x | _ \<Rightarrow> JNull)"
  from assms(8) have settles: "json_result r \<noteq> Pending"
    by auto
  from assms(8) have "\<not> is_truthy (get_prop data (lit ''reply''))"
    by (auto simp: data_def)
  with \<open>ok r\<close> have rec: "reconcile2 r data =
      [SetMessages (Append (assistant (JStr no_reply_text))), SetOnline True]"
    by (rule reconcile2_no_reply)
  from send2_responded [OF assms(1-6) settles] rec
  show ?thesis
    by (simp add: data_def)
qed

theorem success_without_reply_witness:
  "commit (trace (send2
      \<lparr>settles_after = 10,
        result = Fulfilled \<lparr>status = 200, json_result = Rejected SyntaxError\<rparr>\<rparr>
      (initial_state\<lparr>input := lit ''hello''\<rparr>))) (initial_state\<lparr>input := lit ''hello''\<rparr>) =
     Inr \<lparr>online = True, input = [], sending = False,
          messages = [assistant (JStr greeting), user (lit ''hello''),
                      assistant (JStr no_reply_text)]\<rparr> \<and>
   commit (trace (send2
      \<lparr>settles_after = 10,
        result = Fulfilled \<lparr>status = 200, json_result = Fulfilled (JObj [])\<rparr>\<rparr>
      (initial_state\<lparr>input := lit ''hello''\<rparr>))) (initial_state\<lparr>input := lit ''hello''\<rparr>) =
     Inr \<lparr>online = True, input = [], sending = False,
          messages = [assistant (JStr greeting), user (lit ''hello''),
                      assistant (JStr no_reply_text)]\<rparr> \<and>
   commit (trace (send2
      \<lparr>settles_after = 10,
        result = Fulfilled \<lparr>status = 200,
          json_result = Fulfilled (JObj [(lit ''reply'', JStr [])])\<rparr>\<rparr>
      (initial_state\<lparr>input := lit ''hello''\<rparr>))) (initial_state\<lparr>input := lit ''hello''\<rparr>) =
     Inr \<lparr>online = True, input = [], sending = False,
          messages = [assistant (JStr greeting), user (lit ''hello''),
                      assistant (JStr no_reply_text)]\<rparr>"
proof -
  let ?st = "initial_state\<lparr>input := lit ''hello''\<rparr>"
  let ?r1 = "\<lparr>status = 200, json_result = Rejected SyntaxError\<rparr>"
  let ?r2 = "\<lparr>status = 200, json_result = Fulfilled (JObj [])\<rparr>"
  let ?r3 = "\<lparr>status = 200, json_result = Fulfilled (JObj [(lit ''reply'', JStr [])])\<rparr>"
  have t: "settles_after \<lparr>settles_after = 10, result = Fulfilled x\<rparr> < 45000"
    "result \<lparr>settles_after = 10, result = Fulfilled x\<rparr> = Fulfilled x" for x :: response
    by simp_all
  have k: "ok ?r1" "ok ?r2" "ok ?r3"
    by (simp_all add: ok_def)
  have 1: "json_result ?r1 = Rejected SyntaxError \<or>
         (json_result ?r1 = Fulfilled JNull \<and>
          (get_prop JNull (lit ''reply'') = None \<or>
           get_prop JNull (lit ''reply'') = Some (JStr []) \<or>
           \<not> is_truthy (get_prop JNull (lit ''reply''))))"
    by simp
  have 2: "json_result ?r2 = Rejected SyntaxError \<or>
         (json_result ?r2 = Fulfilled (JObj []) \<and>
          (get_prop (JObj []) (lit ''reply'') = None \<or>
           get_prop (JObj []) (lit ''reply'') = Some (JStr []) \<or>
           \<not> is_truthy (get_prop (JObj []) (lit ''reply''))))"
    by (simp add: get_prop_def)
  have 3: "json_result ?r3 = Rejected SyntaxError \<or>
         (json_result ?r3 = Fulfilled (JObj [(lit ''reply'', JStr [])]) \<and>
          (get_prop (JObj [(lit ''reply'', JStr [])]) (lit ''reply'') = None \<or>
           get_prop (JObj [(lit ''reply'', JStr [])]) (lit ''reply'') = Some (JStr []) \<or>
           \<not> is_truthy (get_prop (JObj [(lit ''reply'', JStr [])]) (lit ''reply''))))"
    by (simp add: get_prop_def)
  show ?thesis
    using success_without_reply [OF hello_state t k(1) 1]
      success_without_reply [OF hello_state t k(2) 2]
      success_without_reply [OF hello_state t k(3) 3]
    by (simp add: hello_plain initial_state_def)
qed

text \<open>
  C8. A call of \<open>send\<close> with an input that is empty after trimming, or while a send
  is in progress, does nothing: the trace is empty, so the conversation and the input
  buffer stay as they are and no network call is made.
\<close>

theorem send_skip_is_noop:
  assumes "trim (input st) = [] \<or> sending st"
  shows "send2 tr st = Returned [] \<and> send1 tr st = Returned [] \<and>
         commit (trace (send2 tr st)) st = Inr st \<and>
         commit (trace (send1 tr st)) st = Inr st \<and>
         fetch_calls (trace (send2 tr st)) = [] \<and>
         fetch_calls (trace (send1 tr st)) = []"
  using assms by (simp add: send2_skip send1_skip)

theorem send_skip_is_noop_witness:
  "send2 \<lparr>settles_after = 0, result = Pending\<rparr> (initial_state\<lparr>input := lit ''   ''\<rparr>)
     = Returned [] \<and>
   send2 \<lparr>settles_after = 0, result = Pending\<rparr>
     (initial_state\<lparr>input := lit ''hello'', sending := True\<rparr>) = Returned [] \<and>
   commit (trace (send2 \<lparr>settles_after = 0, result = Pending\<rparr>
     (initial_state\<lparr>input := lit ''hello'', sending := True\<rparr>)))
     (initial_state\<lparr>input := lit ''hello'', sending := True\<rparr>)
     = Inr (initial_state\<lparr>input := lit ''hello'', sending := True\<rparr>)"
proof -
  have a: "trim (input (initial_state\<lparr>input := lit ''   ''\<rparr>)) = [] \<or>
           sending (initial_state\<lparr>input := lit ''   ''\<rparr>)"
    by (simp add: trim_def lit_def is_space_def)
  have b: "trim (input (initial_state\<lparr>input := lit ''hello'', sending := True\<rparr>)) = [] \<or>
           sending (initial_state\<lparr>input := lit ''hello'', sending := True\<rparr>)"
    by simp
  show ?thesis
    using send_skip_is_noop [OF a] send_skip_is_noop [OF b] by simp
qed

text \<open>
  C9, as stated, fails: one input can contain a creator pattern and a name pattern,
  and then both classifiers match it.
\<close>

theorem both_classifiers_match_counterexample:
  "isCreatorQuestion (lit ''Who made you, and what is your name?'') \<and>
   isNameQuestion (lit ''Who made you, and what is your name?'')"
  by (simp add: isCreatorQuestion_def isNameQuestion_def normalize_def trim_def
      toLowerCase_def lit_def lower_unit_def is_space_def)

text \<open>
  C9, amended. No literal pattern of the creator intent is a literal pattern of the
  name intent, but an input can match both classifiers. For such an input \<open>send\<close>
  evaluates the creator check first and gives the creator reply, in both variants.
\<close>

theorem creator_checked_first:
  assumes "\<not> sending st"
    and "isCreatorQuestion (trim (input st))" and "isNameQuestion (trim (input st))"
  shows "send2 tr st =
           Returned [SetMessages (Append (user (trim (input st)))), SetInput [],
                     SetMessages (Append (assistant (JStr creator_text2)))] \<and>
         send1 tr st =
           Returned [SetMessages (Append (user (trim (input st)))), SetInput [],
                     SetMessages (Append (assistant (JStr creator_text1)))] \<and>
         set creator_patterns \<inter> set (name_exact # name_patterns) = {}"
  using assms patterns_disjoint by (simp add: send2_creator send1_creator)

theorem creator_checked_first_witness:
  "send2 \<lparr>settles_after = 0, result = Pending\<rparr>
     (initial_state\<lparr>input := lit ''Who made you, and what is your name?''\<rparr>) =
     Returned [SetMessages (Append (user (lit ''Who made you, and what is your name?''))),
               SetInput [], SetMessages (Append (assistant (JStr creator_text2)))]"
proof -
  let ?st = "initial_state\<lparr>input := lit ''Who made you, and what is your name?''\<rparr>"
  have t: "trim (lit ''Who made you, and what is your name?'') =
           lit ''Who made you, and what is your name?''"
    by (simp add: trim_def lit_def is_space_def)
  have a: "\<not> sending ?st"
    by (simp add: initial_state_def)
  have b: "isCreatorQuestion (trim (input ?st))" and c: "isNameQuestion (trim (input ?st))"
    by (simp_all add: t)
       (simp_all add: isCreatorQuestion_def isNameQuestion_def normalize_def trim_def
          toLowerCase_def lit_def lower_unit_def is_space_def)
  show ?thesis
    using creator_checked_first [OF a b c, of "\<lparr>settles_after = 0, result = Pending\<rparr>"]
    by (simp add: t)
qed

text \<open>
  C10. In the first variant a send that reaches the network makes one call, without
  an abort signal and without starting a timer; when the network never settles the
  call, \<open>send\<close> stays suspended with the send state set. Whenever the response
  arrives and its body parses, whatever the status code is and whether or not the body
  has an \<open>error\<close> field, the only write to the connectivity flag is \<open>true\<close>, and
  the flag is online in every state that React reaches by applying the updates. (It
  reaches one unless the message updater throws while React runs it: for the body
  \<open>null\<close>, and for an \<open>error\<close> value that cannot be converted to a string.)
\<close>

theorem plain_fetch_sets_online:
  assumes "trim (input st) \<noteq> []" and "\<not> sending st"
    and "\<not> isCreatorQuestion (trim (input st))" and "\<not> isNameQuestion (trim (input st))"
  shows "fetch_calls (trace (send1 tr st)) =
           [\<lparr>message = trim (input st), history = historyForServer (messages st),
             signal = False\<rparr>] \<and>
         timer_events (trace (send1 tr st)) = [] \<and>
         (result tr = Pending \<longrightarrow>
            send1 tr st =
              Suspended [SetMessages (Append (user (trim (input st)))), SetInput [],
                         SetSending True,
                         FetchCall \<lparr>message = trim (input st),
                                    history = historyForServer (messages st),
                                    signal = False\<rparr>]) \<and>
         (result tr = Fulfilled r \<and> json_result r = Fulfilled d \<longrightarrow>
            (\<exists>u. send1 tr st =
                   Returned [SetMessages (Append (user (trim (input st)))), SetInput [],
                             SetSending True,
                             FetchCall \<lparr>message = trim (input st),
                                        history = historyForServer (messages st),
                                        signal = False\<rparr>,
                             SetMessages u, SetOnline True, SetSending False]) \<and>
            online_writes (trace (send1 tr st)) = [True] \<and>
            (\<forall>st'. commit (trace (send1 tr st)) st = Inr st' \<longrightarrow> online st') \<and>
            (d \<noteq> JNull \<and>
             (\<forall>v. get_prop d (lit ''error'') = Some v \<and> truthy v \<longrightarrow> to_string v \<noteq> None) \<longrightarrow>
               (\<exists>st'. commit (trace (send1 tr st)) st = Inr st')))"
proof -
  note run = send1_begun [OF assms, of tr]
  have calls: "fetch_calls (trace (send1 tr st)) =
           [\<lparr>message = trim (input st), history = historyForServer (messages st),
             signal = False\<rparr>]"
    and timers: "timer_events (trace (send1 tr st)) = []"
    by (auto simp: run Let_def catch1_def split: promise.splits)
  have pending: "send1 tr st =
              Suspended [SetMessages (Append (user (trim (input st)))), SetInput [],
                         SetSending True,
                         FetchCall \<lparr>message = trim (input st),
                                    history = historyForServer (messages st),
                                    signal = False\<rparr>]"
    if "result tr = Pending"
    using that by (simp add: run)
  have parsed: "(\<exists>u. send1 tr st =
                   Returned [SetMessages (Append (user (trim (input st)))), SetInput [],
                             SetSending True,
                             FetchCall \<lparr>message = trim (input st),
                                        history = historyForServer (messages st),
                                        signal = False\<rparr>,
                             SetMessages u, SetOnline True, SetSending False]) \<and>
            online_writes (trace (send1 tr st)) = [True] \<and>
            (\<forall>st'. commit (trace (send1 tr st)) st = Inr st' \<longrightarrow> online st') \<and>
            (d \<noteq> JNull \<and>
             (\<forall>v. get_prop d (lit ''error'') = Some v \<and> truthy v \<longrightarrow> to_string v \<noteq> None) \<longrightarrow>
               (\<exists>st'. commit (trace (send1 tr st)) st = Inr st'))"
    if "result tr = Fulfilled r \<and> json_result r = Fulfilled d"
  proof -
    obtain u where u: "reconcile1 d = [SetMessages u, SetOnline True]"
      using reconcile1_shape by blast
    from that have s: "send1 tr st =
                   Returned [SetMessages (Append (user (trim (input st)))), SetInput [],
                             SetSending True,
                             FetchCall \<lparr>message = trim (input st),
                                        history = historyForServer (messages st),
                                        signal = False\<rparr>,
                             SetMessages u, SetOnline True, SetSending False]"
      by (simp add: run u)
    have "\<exists>st'. commit (trace (send1 tr st)) st = Inr st'"
      if "d \<noteq> JNull \<and>
          (\<forall>v. get_prop d (lit ''error'') = Some v \<and> truthy v \<longrightarrow> to_string v \<noteq> None)"
    proof -
      from that obtain v where "\<forall>s. commit (reconcile1 d) s =
           Inr (s\<lparr>messages := messages s @ [assistant v], online := True\<rparr>)"
        using reconcile1_commits [of d] by blast
      moreover from \<open>result tr = Fulfilled r \<and> json_result r = Fulfilled d\<close>
      have "send1 tr st =
          Returned ([SetMessages (Append (user (trim (input st)))), SetInput [],
                     SetSending True,
                     FetchCall \<lparr>message = trim (input st),
                                history = historyForServer (messages st),
                                signal = False\<rparr>] @ reconcile1 d @ [SetSending False])"
        by (simp add: run)
      ultimately show ?thesis
        by (simp add: commit_append)
    qed
    moreover have "\<forall>st'. commit (trace (send1 tr st)) st = Inr st' \<longrightarrow> online st'"
      by (cases u) (auto simp: s)
    ultimately show ?thesis
      using s by simp
  qed
  from calls timers pending parsed show ?thesis
    by blast
qed

theorem plain_fetch_sets_online_witness:
  "online_writes (trace (send1
      \<lparr>settles_after = 10,
        result = Fulfilled \<lparr>status = 500,
          json_result = Fulfilled (JObj [(lit ''error'', JStr (lit ''db down''))])\<rparr>\<rparr>
      (initial_state\<lparr>input := lit ''hello''\<rparr>))) = [True] \<and>
   (\<exists>st'. commit (trace (send1
      \<lparr>settles_after = 10,
        result = Fulfilled \<lparr>status = 500,
          json_result = Fulfilled (JObj [(lit ''error'', JStr (lit ''db down''))])\<rparr>\<rparr>
      (initial_state\<lparr>input := lit ''hello''\<rparr>))) (initial_state\<lparr>input := lit ''hello''\<rparr>)
      = Inr st' \<and> online st') \<and>
   send1 \<lparr>settles_after = 0, result = Pending\<rparr> (initial_state\<lparr>input := lit ''hello''\<rparr>) =
     Suspended [SetMessages (Append (user (lit ''hello''))), SetInput [], SetSending True,
                FetchCall \<lparr>message = lit ''hello'',
                           history = [assistant (JStr greeting)], signal = False\<rparr>]"
proof -
  let ?st = "initial_state\<lparr>input := lit ''hello''\<rparr>"
  let ?d = "JObj [(lit ''error'', JStr (lit ''db down''))]"
  let ?r = "\<lparr>status = 500, json_result = Fulfilled ?d\<rparr>"
  let ?tr = "\<lparr>settles_after = 10, result = Fulfilled ?r\<rparr>"
  have h: "historyForServer [assistant (JStr greeting)] = [assistant (JStr greeting)]"
    by (simp add: historyForServer_def slice_last_def) (simp add: assistant_def)
  have parsed: "result ?tr = Fulfilled ?r \<and> json_result ?r = Fulfilled ?d"
    and "?d \<noteq> JNull \<and>
         (\<forall>v. get_prop ?d (lit ''error'') = Some v \<and> truthy v \<longrightarrow> to_string v \<noteq> None)"
    by (simp_all add: get_prop_def)
  with plain_fetch_sets_online [OF hello_state, of ?tr ?r ?d]
  have w: "online_writes (trace (send1 ?tr ?st)) = [True]"
    and on: "\<forall>st'. commit (trace (send1 ?tr ?st)) ?st = Inr st' \<longrightarrow> online st'"
    and ex: "\<exists>st'. commit (trace (send1 ?tr ?st)) ?st = Inr st'"
    by blast+
  from on ex have "\<exists>st'. commit (trace (send1 ?tr ?st)) ?st = Inr st' \<and> online st'"
    by blast
  moreover
  from plain_fetch_sets_online [OF hello_state, of "\<lparr>settles_after = 0, result = Pending\<rparr>"]
  have "send1 \<lparr>settles_after = 0, result = Pending\<rparr> ?st =
     Suspended [SetMessages (Append (user (lit ''hello''))), SetInput [], SetSending True,
                FetchCall \<lparr>message = lit ''hello'',
                           history = [assistant (JStr greeting)], signal = False\<rparr>]"
    by (simp add: hello_plain initial_state_def h)
  ultimately show ?thesis
    using w by blast
qed

end
